theory Spec2Isabelle
  imports Main
begin

section \<open>Values shared by all components\<close>

text \<open>
  Exceptions of the Python sources, as values.  A function that can raise returns
  \<open>error + 'a\<close> with \<open>Inl\<close> for the exception.
\<close>

datatype error =
    ValueError
  | NotImplementedError
  | AssertionError
  | IndexError
  | KeyError
  | UnboundLocalError
  | RuntimeError

type_synonym dim = string

text \<open>
  A shape entry: \<open>isinstance(s, int) or s in DOMAINS\<close> (terms.py, line 87).
\<close>

datatype size = Card int | Dom string

definition DOMAINS :: "string list" where
  "DOMAINS = [''real'', ''density'']"

text \<open>
  The operators of module \<open>funsor.ops\<close> are Python callables that the sources only
  compare by identity (\<open>op is self.op\<close>, \<open>term.op == op\<close>); they are named values here.
\<close>

datatype op = Op string

definition ops_add :: op where "ops_add = Op ''add''"
definition ops_mul :: op where "ops_mul = Op ''mul''"
definition ops_logaddexp :: op where "ops_logaddexp = Op ''logaddexp''"
definition ops_min :: op where "ops_min = Op ''min''"
definition ops_max :: op where "ops_max = Op ''max''"

text \<open>Python numbers held by \<open>Number\<close> and by backend tensors (floats are left out).\<close>

datatype pynum = PyBool bool | PyInt int

text \<open>
  The data of a backend tensor (\<open>torch.Tensor\<close>): its shape and its elements in
  row-major order.
\<close>

datatype torch_tensor = TorchTensor (tshape: "nat list") (tdata: "pynum list")

subsection \<open>Ordered dictionaries (the schema of a term)\<close>

type_synonym schema = "(dim \<times> size) list"

text \<open>\<open>d[k] = v\<close>: an existing key keeps its position, a new key goes to the end.\<close>

fun od_set :: "schema \<Rightarrow> dim \<Rightarrow> size \<Rightarrow> schema" where
  "od_set [] k v = [(k, v)]"
| "od_set ((k', v') # rest) k v =
     (if k' = k then (k, v) # rest else (k', v') # od_set rest k v)"

text \<open>\<open>d.update(other)\<close>.\<close>

definition od_update :: "schema \<Rightarrow> schema \<Rightarrow> schema" where
  "od_update s t = foldl (\<lambda>acc kv. od_set acc (fst kv) (snd kv)) s t"

text \<open>\<open>del d[k]\<close> on the entries (the KeyError of a missing key is raised by the caller).\<close>

definition od_del :: "schema \<Rightarrow> dim \<Rightarrow> schema" where
  "od_del s k = filter (\<lambda>kv. fst kv \<noteq> k) s"

section \<open>The term model (terms.py)\<close>

text \<open>
  One constructor per class.  Terms are interned (see the cache below), so an instance
  is determined by its class and constructor arguments, and reference equality of
  instances is equality of these values.

  \<open>Finitary\<close> and \<open>Distribution\<close> are imported by the engines from modules that are
  not part of the sources.

  Modelled from the spec: class \<open>Finitary(op, operands)\<close>, the n-ary generalisation of
  \<open>Binary\<close>, whose schema is the union of its operands' schemas in order.

  Modelled from the spec: class \<open>Distribution\<close> (module \<open>funsor.distributions\<close>), an
  opaque ground term carrying its own schema.
\<close>

datatype funsor =
    Variable dim size
  | Substitution funsor "(dim \<times> funsor) list"
  | Align funsor "dim list" "size list"
  | Unary op funsor
  | Binary op funsor funsor
  | Finitary op "funsor list"
  | Reduction op funsor "dim set"
  | Number pynum
  | Tensor "dim list" torch_tensor
  | Contract op op funsor funsor dim
  | Distribution string schema

text \<open>
  The pair \<open>(dims, shape)\<close> that each \<open>__init__\<close> passes to \<open>Funsor.__init__\<close>, which
  stores it as \<open>self.dims\<close> and \<open>self.shape\<close> and sets
  \<open>self.schema = OrderedDict(zip(dims, shape))\<close>.  Where an \<open>__init__\<close> reads the
  schema of an argument, \<open>zip\<close> of the argument's pair stands for it.
  \<open>Reduction.__init__\<close> keeps the dims of its argument that are not reduced and looks
  their sizes up in the argument's schema.
\<close>

fun dims_shape :: "funsor \<Rightarrow> dim list \<times> size list" where
  "dims_shape (Variable name sz) = ([name], [sz])"
| "dims_shape (Substitution arg subs) =
     (let sch = foldl od_update
                  (foldl od_del (zip (fst (dims_shape arg)) (snd (dims_shape arg))) (map fst subs))
                  (map (\<lambda>dv. zip (fst (dims_shape (snd dv))) (snd (dims_shape (snd dv)))) subs)
      in (map fst sch, map snd sch))"
| "dims_shape (Align arg ds sh) = (ds, sh)"
| "dims_shape (Unary f arg) = dims_shape arg"
| "dims_shape (Binary f lhs rhs) =
     (let sch = od_update (zip (fst (dims_shape lhs)) (snd (dims_shape lhs)))
                  (zip (fst (dims_shape rhs)) (snd (dims_shape rhs)))
      in (map fst sch, map snd sch))"
| "dims_shape (Finitary f operands) =
     (let sch = foldl od_update []
                  (map (\<lambda>x. zip (fst (dims_shape x)) (snd (dims_shape x))) operands)
      in (map fst sch, map snd sch))"
| "dims_shape (Reduction f arg reduce_dims) =
     (let sch = filter (\<lambda>kv. fst kv \<notin> reduce_dims)
                  (zip (fst (dims_shape arg)) (snd (dims_shape arg)))
      in (filter (\<lambda>d. d \<notin> reduce_dims) (fst (dims_shape arg)), map snd sch))"
| "dims_shape (Number data) = ([], [])"
| "dims_shape (Tensor ds data) = (ds, map (\<lambda>n. Card (int n)) (tshape data))"
| "dims_shape (Contract sum_op prod_op lhs rhs d) =
     (let sch = od_del (od_update (zip (fst (dims_shape lhs)) (snd (dims_shape lhs)))
                          (zip (fst (dims_shape rhs)) (snd (dims_shape rhs)))) d
      in (map fst sch, map snd sch))"
| "dims_shape (Distribution name sch) = (map fst sch, map snd sch)"

definition dims :: "funsor \<Rightarrow> dim list" where
  "dims x = fst (dims_shape x)"

definition shape :: "funsor \<Rightarrow> size list" where
  "shape x = snd (dims_shape x)"

definition schema :: "funsor \<Rightarrow> schema" where
  "schema x = zip (dims x) (shape x)"

text \<open>
  The assertions of \<open>Funsor.__init__\<close> (lines 83-88) on the pair it receives; a term
  whose pair fails them cannot be constructed.
\<close>

definition valid_size :: "size \<Rightarrow> bool" where
  "valid_size s = (case s of Card n \<Rightarrow> True | Dom t \<Rightarrow> t \<in> set DOMAINS)"

definition Funsor_init_ok :: "funsor \<Rightarrow> bool" where
  "Funsor_init_ok x =
     (distinct (dims x) \<and> list_all valid_size (shape x) \<and> length (dims x) = length (shape x))"

subsection \<open>The numeric backend\<close>

text \<open>
  The backend (\<open>torch\<close>) and the table \<open>ops.REDUCE_OP_TO_TORCH\<close> are external: the
  reductions they compute are parameters of the model.
\<close>

record backend =
  REDUCE_OP_TO_TORCH :: "op list"
  torch_reduce_all :: "op \<Rightarrow> torch_tensor \<Rightarrow> torch_tensor"
  torch_reduce_pos :: "op \<Rightarrow> torch_tensor \<Rightarrow> nat \<Rightarrow> torch_tensor"
  torch_minmax_pos :: "op \<Rightarrow> torch_tensor \<Rightarrow> nat \<Rightarrow> torch_tensor"
  torch_logsumexp_all :: "torch_tensor \<Rightarrow> torch_tensor"

text \<open>
  The backend's scalar conversions, \<open>bool(data)\<close> and \<open>data.item()\<close>: defined for a
  tensor of exactly one element, whatever its number of axes, and an error otherwise.
\<close>

fun truth :: "pynum \<Rightarrow> bool" where
  "truth (PyBool b) = b"
| "truth (PyInt i) = (i \<noteq> 0)"

definition torch_bool :: "torch_tensor \<Rightarrow> error + bool" where
  "torch_bool data = (case tdata data of [v] \<Rightarrow> Inr (truth v) | _ \<Rightarrow> Inl RuntimeError)"

definition torch_item :: "torch_tensor \<Rightarrow> error + pynum" where
  "torch_item data = (case tdata data of [v] \<Rightarrow> Inr v | _ \<Rightarrow> Inl ValueError)"

subsection \<open>Scalar coercion: \<open>__bool__\<close> and \<open>item\<close>\<close>

definition Funsor_bool :: "funsor \<Rightarrow> error + bool" where
  "Funsor_bool x = (if shape x \<noteq> [] then Inl ValueError else Inl NotImplementedError)"

definition Funsor_item :: "funsor \<Rightarrow> error + pynum" where
  "Funsor_item x = (if shape x \<noteq> [] then Inl ValueError else Inl NotImplementedError)"

text \<open>Method resolution: \<open>Number\<close> and \<open>Tensor\<close> override, every other class inherits.\<close>

fun bool_of :: "funsor \<Rightarrow> error + bool" where
  "bool_of (Number data) = Inr (truth data)"
| "bool_of (Tensor ds data) = torch_bool data"
| "bool_of x = Funsor_bool x"

fun item :: "funsor \<Rightarrow> error + pynum" where
  "item (Number data) = Inr data"
| "item (Tensor ds data) = torch_item data"
| "item x = Funsor_item x"

subsection \<open>\<open>reduce\<close>\<close>

text \<open>
  The \<open>dims\<close> argument of \<open>reduce\<close>: \<open>None\<close>, a single name, or a collection of names.
\<close>

datatype dims_arg = DimsNone | DimsStr string | DimsSet "dim set"

text \<open>
  \<open>frozenset(dims)\<close> for an argument that is not \<open>None\<close>: iterating a string yields its
  characters, each a string of length one.
\<close>

fun frozenset_of :: "dims_arg \<Rightarrow> dim set" where
  "frozenset_of (DimsStr s) = (\<lambda>c. [c]) ` set s"
| "frozenset_of (DimsSet S) = S"
| "frozenset_of DimsNone = {}"

text \<open>\<open>Funsor.reduce\<close> (terms.py, lines 178-194).\<close>

definition Funsor_reduce :: "funsor \<Rightarrow> op \<Rightarrow> dims_arg \<Rightarrow> funsor" where
  "Funsor_reduce self f ds =
     (let ds' = (case ds of
                   DimsNone \<Rightarrow> set (dims self)
                 | DimsStr s \<Rightarrow> {s} \<inter> set (dims self)
                 | DimsSet S \<Rightarrow> S \<inter> set (dims self))
      in if ds' = {} then self else Reduction f self ds')"

text \<open>
  \<open>Tensor.reduce\<close> (lines 710-733).  The positions reduced are those of the chosen dims,
  from the last to the first.
\<close>

definition Tensor_reduce :: "backend \<Rightarrow> dim list \<Rightarrow> torch_tensor \<Rightarrow> op \<Rightarrow> dims_arg \<Rightarrow> funsor" where
  "Tensor_reduce B sdims data f ds =
     (if f \<in> set (REDUCE_OP_TO_TORCH B) then
        (let self_dims = set sdims;
             ds' = (case ds of DimsNone \<Rightarrow> self_dims | _ \<Rightarrow> self_dims \<inter> frozenset_of ds)
         in if ds' = {} then Tensor sdims data
            else if ds' = self_dims then
              (if f = ops_logaddexp then Tensor [] (torch_logsumexp_all B data)
               else Tensor [] (torch_reduce_all B f data))
            else
              Tensor (filter (\<lambda>d. d \<notin> ds') sdims)
                (foldl (\<lambda>acc pos. if f = ops_min \<or> f = ops_max
                                    then torch_minmax_pos B f acc pos
                                    else torch_reduce_pos B f acc pos)
                   data (rev (filter (\<lambda>i. sdims ! i \<in> ds') [0..<length sdims]))))
      else Funsor_reduce (Tensor sdims data) f ds)"

text \<open>
  Method resolution for \<open>x.reduce(op, dims)\<close>: \<open>Align.reduce\<close> (line 460) delegates to
  its argument, \<open>Reduction.reduce\<close> (lines 535-543) fuses when the operator is its own,
  \<open>Tensor.reduce\<close> calls the backend, every other class inherits \<open>Funsor.reduce\<close>.
\<close>

fun reduce :: "backend \<Rightarrow> funsor \<Rightarrow> op \<Rightarrow> dims_arg \<Rightarrow> funsor" where
  "reduce B (Align arg ds sh) f d = reduce B arg f d"
| "reduce B (Reduction g arg reduce_dims) f d =
     (if f = g then
        (let ds' = (case d of
                      DimsNone \<Rightarrow> set (dims (Reduction g arg reduce_dims))
                    | _ \<Rightarrow> frozenset_of d \<inter> set (dims (Reduction g arg reduce_dims)))
         in Reduction f arg (reduce_dims \<union> ds'))
      else Funsor_reduce (Reduction g arg reduce_dims) f d)"
| "reduce B (Tensor sdims data) f d = Tensor_reduce B sdims data f d"
| "reduce B x f d = Funsor_reduce x f d"





fun is_Align :: "funsor \<Rightarrow> bool" where
  "is_Align (Align arg ds sh) = True"
| "is_Align x = False"

fun is_Tensor :: "funsor \<Rightarrow> bool" where
  "is_Tensor (Tensor ds data) = True"
| "is_Tensor x = False"

text \<open>A backend with an empty table of reductions, for concrete runs.\<close>

definition null_backend :: backend where
  "null_backend =
     \<lparr>REDUCE_OP_TO_TORCH = [],
      torch_reduce_all = (\<lambda>f data. data),
      torch_reduce_pos = (\<lambda>f data pos. data),
      torch_minmax_pos = (\<lambda>f data pos. data),
      torch_logsumexp_all = (\<lambda>data. data)\<rparr>"

subsection \<open>Interning: \<open>ConsHashedMeta.__call__\<close>\<close>

text \<open>
  Constructor arguments as the cache compares them.  A nested term is hashed by
  \<open>id(self)\<close> and found equal by identity, so it is its instance number; so is any
  other object that is compared by identity (backend data).
\<close>

datatype pyarg =
    AStr string
  | ANum pynum
  | AType string
  | AOp op
  | ARef nat
  | AData nat
  | ATuple "pyarg list"
  | AFrozenset "dim set"

type_synonym key = "string \<times> pyarg list"

text \<open>
  The state: the class attribute \<open>_cache\<close>, from keys \<open>(cls, args)\<close> to instances, and
  the number of the next fresh instance.
\<close>

record interner =
  cache :: "key \<rightharpoonup> nat"
  next_id :: nat

text \<open>
  Lines 48-55: keyword arguments are appended to the positional ones in the order of the
  parameters of \<open>cls.__init__\<close>; \<open>kwargs[name]\<close> raises KeyError for a missing name.
  The parameter names (\<open>inspect.getargspec\<close>) are a parameter \<open>init_args\<close>.
\<close>

fun lookup_names :: "(string \<times> pyarg) list \<Rightarrow> string list \<Rightarrow> error + pyarg list" where
  "lookup_names kwargs [] = Inr []"
| "lookup_names kwargs (name # names) =
     (case map_of kwargs name of
        None \<Rightarrow> Inl KeyError
      | Some v \<Rightarrow> (case lookup_names kwargs names of
                     Inl e \<Rightarrow> Inl e
                   | Inr vs \<Rightarrow> Inr (v # vs)))"

definition kwargs_to_args ::
    "(string \<Rightarrow> string list) \<Rightarrow> string \<Rightarrow> pyarg list \<Rightarrow> (string \<times> pyarg) list
     \<Rightarrow> error + pyarg list" where
  "kwargs_to_args init_args cls args kwargs =
     (if kwargs \<noteq> [] then
        (case lookup_names kwargs (drop (length args) (init_args cls)) of
           Inl e \<Rightarrow> Inl e
         | Inr vs \<Rightarrow> Inr (args @ vs))
      else Inr args)"

text \<open>
  Lines 57-63.  \<open>super().__call__(*args)\<close> makes a new instance and runs the class's
  \<open>__init__\<close>, which may raise; \<open>init cls args\<close> is the exception it raises, if any.
\<close>

definition ConsHashedMeta_call ::
    "(string \<Rightarrow> string list) \<Rightarrow> (string \<Rightarrow> pyarg list \<Rightarrow> error option)
     \<Rightarrow> string \<Rightarrow> pyarg list \<Rightarrow> (string \<times> pyarg) list \<Rightarrow> interner
     \<Rightarrow> error + (nat \<times> interner)" where
  "ConsHashedMeta_call init_args init cls args kwargs st =
     (case kwargs_to_args init_args cls args kwargs of
        Inl e \<Rightarrow> Inl e
      | Inr args' \<Rightarrow>
          (case cache st (cls, args') of
             Some result \<Rightarrow> Inr (result, st)
           | None \<Rightarrow>
               (case init cls args' of
                  Some e \<Rightarrow> Inl e
                | None \<Rightarrow>
                    Inr (next_id st,
                         st\<lparr>cache := (cache st)((cls, args') \<mapsto> next_id st),
                            next_id := Suc (next_id st)\<rparr>))))"

text \<open>
  \<open>AddTypeMeta.__call__\<close> (lines 546-550), the metaclass of \<open>Number\<close>: a missing
  \<open>dtype\<close> becomes \<open>type(data)\<close>, and both go to \<open>ConsHashedMeta.__call__\<close> as
  positional arguments.
\<close>

fun type_of :: "pynum \<Rightarrow> string" where
  "type_of (PyBool b) = ''bool''"
| "type_of (PyInt i) = ''int''"

definition AddTypeMeta_call ::
    "(string \<Rightarrow> string list) \<Rightarrow> (string \<Rightarrow> pyarg list \<Rightarrow> error option)
     \<Rightarrow> pynum \<Rightarrow> string option \<Rightarrow> interner \<Rightarrow> error + (nat \<times> interner)" where
  "AddTypeMeta_call init_args init data dtype st =
     ConsHashedMeta_call init_args init ''Number''
       [ANum data, AType (case dtype of None \<Rightarrow> type_of data | Some t \<Rightarrow> t)] [] st"

text \<open>
  The cache is a \<open>WeakValueDictionary\<close>: an entry disappears once nothing else refers to
  its instance.  \<open>collect live\<close> drops the entries of the instances outside \<open>live\<close>.
\<close>

definition collect :: "nat set \<Rightarrow> interner \<Rightarrow> interner" where
  "collect live st =
     st\<lparr>cache := (\<lambda>k. case cache st k of
                         None \<Rightarrow> None
                       | Some i \<Rightarrow> (if i \<in> live then Some i else None))\<rparr>"

text \<open>
  What can happen to the state while instance \<open>i\<close> stays referenced: further
  construction calls, and collections that keep \<open>i\<close>.
\<close>

inductive evolves ::
    "(string \<Rightarrow> string list) \<Rightarrow> (string \<Rightarrow> pyarg list \<Rightarrow> error option) \<Rightarrow> nat
     \<Rightarrow> interner \<Rightarrow> interner \<Rightarrow> bool"
  for init_args init i where
    evolves_refl: "evolves init_args init i st st"
  | evolves_call:
      "evolves init_args init i st st1 \<Longrightarrow>
       ConsHashedMeta_call init_args init cls args kwargs st1 = Inr (j, st2) \<Longrightarrow>
       evolves init_args init i st st2"
  | evolves_collect:
      "evolves init_args init i st st1 \<Longrightarrow> i \<in> live \<Longrightarrow>
       evolves init_args init i st (collect live st1)"

section \<open>The deferred-call driver (engine/engine.py)\<close>

text \<open>
  The state of a \<open>trampoline\<close> handler.  A scheduled step is a function with the
  numbers of positional and keyword arguments it will take from the queues.  A step
  function gets its positional arguments and the dict of its keyword arguments and
  returns a value or raises.
\<close>

type_synonym 'v step_fn = "'v list \<Rightarrow> (string \<rightharpoonup> 'v) \<Rightarrow> error + 'v"

record 'v trampoline =
  schedule :: "('v step_fn \<times> nat \<times> nat) list"
  args_queue :: "'v list"
  kwargs_queue :: "(string \<times> 'v) list"
  returnvalue :: "'v option"

text \<open>\<open>__enter__\<close> (lines 74-79).\<close>

definition enter :: "'v trampoline" where
  "enter = \<lparr>schedule = [], args_queue = [], kwargs_queue = [], returnvalue = None\<rparr>"

text \<open>\<open>process\<close> of a \<open>TailCall\<close> message with its \<open>fn\<close>, \<open>args\<close> and \<open>kwargs\<close>
  (lines 99-106).\<close>

definition process_TailCall ::
    "'v trampoline \<Rightarrow> 'v step_fn \<times> 'v list \<times> (string \<times> 'v) list \<Rightarrow> 'v trampoline" where
  "process_TailCall st msg =
     (case msg of (fn, args, kwargs) \<Rightarrow>
        st\<lparr>schedule := schedule st @ [(fn, length args, length kwargs)],
           args_queue := args_queue st @ args,
           kwargs_queue := kwargs_queue st @ kwargs\<rparr>)"

text \<open>
  The loop of \<open>__exit__\<close> (lines 83-87) on the three lists.  \<open>pop(0)\<close> on an empty queue
  raises IndexError, with the queue emptied by the pops before it.  \<open>dict\<close> of the
  popped pairs keeps the last value of a repeated key.  When a step raises, the
  exception leaves the loop; the lists are as the loop left them.
\<close>

fun drain ::
    "('v step_fn \<times> nat \<times> nat) list \<Rightarrow> 'v list \<Rightarrow> (string \<times> 'v) list
     \<Rightarrow> (error \<times> ('v step_fn \<times> nat \<times> nat) list \<times> 'v list \<times> (string \<times> 'v) list)
        + ('v list \<times> (string \<times> 'v) list)" where
  "drain [] aq kq = Inr (aq, kq)"
| "drain ((fn, nargs, nkwargs) # rest) aq kq =
     (if length aq < nargs then Inl (IndexError, rest, [], kq)
      else if length kq < nkwargs then Inl (IndexError, rest, drop nargs aq, [])
      else (case fn (take nargs aq) (map_of (rev (take nkwargs kq))) of
              Inl e \<Rightarrow> Inl (e, rest, drop nargs aq, drop nkwargs kq)
            | Inr v \<Rightarrow> drain rest (drop nargs aq @ [v]) (drop nkwargs kq)))"

text \<open>
  \<open>__exit__\<close> (lines 81-93), given the exception that left the \<open>with\<close> body, if any.
  The result is the state on a normal exit, or the exception that propagates together
  with the state left behind.

  Modelled from the spec: \<open>Handler.__exit__\<close> (module \<open>funsor.handlers\<close> is not part of
  the sources) uninstalls the handler and does not suppress the exception.
\<close>

definition exit_trampoline ::
    "error option \<Rightarrow> 'v trampoline \<Rightarrow> (error \<times> 'v trampoline) + 'v trampoline" where
  "exit_trampoline exc st =
     (case exc of
        None \<Rightarrow>
          (case drain (schedule st) (args_queue st) (kwargs_queue st) of
             Inl (e, sch, aq, kq) \<Rightarrow>
               Inl (e, st\<lparr>schedule := sch, args_queue := aq, kwargs_queue := kq\<rparr>)
           | Inr (aq, kq) \<Rightarrow>
               (case aq of
                  [] \<Rightarrow> Inl (IndexError, st\<lparr>schedule := [], args_queue := [], kwargs_queue := kq\<rparr>)
                | v # aq' \<Rightarrow>
                    (let st' = st\<lparr>schedule := [], args_queue := aq', kwargs_queue := kq,
                                   returnvalue := Some v\<rparr>
                     in if aq' \<noteq> [] \<or> kq \<noteq> [] then Inl (AssertionError, st') else Inr st')))
      | Some e \<Rightarrow>
          Inl (e, st\<lparr>schedule := [], args_queue := [], kwargs_queue := [],
                     returnvalue := None\<rparr>))"

text \<open>
  \<open>__call__\<close> (lines 108-111): the wrapped function runs inside \<open>with self\<close>.  What the
  driver sees of the run is the sequence of \<open>TailCall\<close> messages it emits and the
  exception it ends with, if any.
\<close>

definition call_trampoline ::
    "('v step_fn \<times> 'v list \<times> (string \<times> 'v) list) list \<Rightarrow> error option
     \<Rightarrow> (error \<times> 'v trampoline) + ('v option \<times> 'v trampoline)" where
  "call_trampoline msgs exc =
     (case exit_trampoline exc (foldl process_TailCall enter msgs) of
        Inl (e, st) \<Rightarrow> Inl (e, st)
      | Inr st \<Rightarrow> Inr (returnvalue st, st))"

section \<open>The contraction algebra (contract.py)\<close>

text \<open>
  The last argument of \<open>Contract.__init__\<close> is named \<open>dim\<close> and is used as one
  dimension name; the handlers pass it the frozenset they receive.  Both kinds of Python
  value are kept apart.
\<close>

datatype pyval = PyStr string | PyFrozenset "dim set"

text \<open>
  \<open>dim in x.dims\<close>: \<open>x.dims\<close> is a tuple of strings (asserted by \<open>Funsor.__init__\<close>),
  and a frozenset is equal to no string.
\<close>

fun py_in :: "pyval \<Rightarrow> dim list \<Rightarrow> bool" where
  "py_in (PyStr d) ds = (d \<in> set ds)"
| "py_in (PyFrozenset S) ds = False"

text \<open>
  \<open>Contract.__init__\<close> (lines 13-30), as run by a construction call.  Past the
  assertion, \<open>del schema[dim]\<close> raises KeyError for a key that is not in the schema.
\<close>

definition Contract_init :: "op \<Rightarrow> op \<Rightarrow> funsor \<Rightarrow> funsor \<Rightarrow> pyval \<Rightarrow> error + funsor" where
  "Contract_init sum_op prod_op lhs rhs d =
     (if \<not> (py_in d (dims lhs) \<and> py_in d (dims rhs)) then Inl AssertionError
      else case d of
             PyStr name \<Rightarrow> Inr (Contract sum_op prod_op lhs rhs name)
           | PyFrozenset S \<Rightarrow> Inl KeyError)"

text \<open>The generic handlers \<open>_sumproduct\<close> (line 37) and \<open>_logsumproductexp\<close> (line 54).\<close>

definition sumproduct :: "funsor \<Rightarrow> funsor \<Rightarrow> dim set \<Rightarrow> error + funsor" where
  "sumproduct lhs rhs reduce_dims =
     Contract_init ops_add ops_mul lhs rhs (PyFrozenset reduce_dims)"

definition logsumproductexp :: "funsor \<Rightarrow> funsor \<Rightarrow> dim set \<Rightarrow> error + funsor" where
  "logsumproductexp lhs rhs reduce_dims =
     Contract_init ops_logaddexp ops_add lhs rhs (PyFrozenset reduce_dims)"

text \<open>
  The handlers for two concrete tensors (lines 42 and 59); \<open>opt_einsum.contract\<close> is
  external and a parameter.  \<open>del schema[dim]\<close> raises KeyError for a dim of
  \<open>reduce_dims\<close> that neither operand has.
\<close>

type_synonym einsum =
  "torch_tensor \<Rightarrow> dim list \<Rightarrow> torch_tensor \<Rightarrow> dim list \<Rightarrow> dim list \<Rightarrow> torch_tensor"

definition contract_tensor_tensor ::
    "einsum \<Rightarrow> dim list \<Rightarrow> torch_tensor \<Rightarrow> dim list \<Rightarrow> torch_tensor \<Rightarrow> dim set \<Rightarrow> error + funsor" where
  "contract_tensor_tensor es ldims ldata rdims rdata reduce_dims =
     (let sch = od_update (schema (Tensor ldims ldata)) (schema (Tensor rdims rdata))
      in if \<not> reduce_dims \<subseteq> fst ` set sch then Inl KeyError
         else (let ds = map fst (filter (\<lambda>kv. fst kv \<notin> reduce_dims) sch)
               in Inr (Tensor ds (es ldata ldims rdata rdims ds))))"

text \<open>
  Modelled from the spec: the dispatch of the registry \<open>contract\<close> (class
  \<open>KeyedRegistry\<close> of module \<open>funsor.registry\<close> is not part of the sources): the
  handler registered for the operator pair is chosen, the one for two tensors when both
  operands are concrete tensors and the generic one otherwise; an unregistered operator
  pair has no handler.
\<close>

definition contract ::
    "einsum \<Rightarrow> einsum \<Rightarrow> op \<times> op \<Rightarrow> funsor \<Rightarrow> funsor \<Rightarrow> dim set \<Rightarrow> error + funsor" where
  "contract es_sum es_log key lhs rhs reduce_dims =
     (if key = (ops_add, ops_mul) then
        (case (lhs, rhs) of
           (Tensor ld ldata, Tensor rd rdata) \<Rightarrow>
             contract_tensor_tensor es_sum ld ldata rd rdata reduce_dims
         | _ \<Rightarrow> sumproduct lhs rhs reduce_dims)
      else if key = (ops_logaddexp, ops_add) then
        (case (lhs, rhs) of
           (Tensor ld ldata, Tensor rd rdata) \<Rightarrow>
             contract_tensor_tensor es_log ld ldata rd rdata reduce_dims
         | _ \<Rightarrow> logsumproductexp lhs rhs reduce_dims)
      else Inl NotImplementedError)"

definition both_tensors :: "funsor \<Rightarrow> funsor \<Rightarrow> bool" where
  "both_tensors lhs rhs =
     (case (lhs, rhs) of (Tensor ld ldata, Tensor rd rdata) \<Rightarrow> True | _ \<Rightarrow> False)"

section \<open>The rewrite stages (engine/opteinsum\_engine.py)\<close>

subsection \<open>Canonicalize: \<open>deoptimize_finitary\<close>\<close>

fun is_Finitary :: "funsor \<Rightarrow> bool" where
  "is_Finitary (Finitary f operands) = True"
| "is_Finitary x = False"

fun is_Reduction :: "funsor \<Rightarrow> bool" where
  "is_Reduction (Reduction f arg reduce_dims) = True"
| "is_Reduction x = False"

text \<open>\<open>isinstance(term, Deoptimize.GROUND_TERMS)\<close> (line 27).\<close>

fun is_GROUND_TERM :: "funsor \<Rightarrow> bool" where
  "is_GROUND_TERM (Distribution name sch) = True"
| "is_GROUND_TERM (Substitution arg subs) = True"
| "is_GROUND_TERM (Number data) = True"
| "is_GROUND_TERM (Tensor ds data) = True"
| "is_GROUND_TERM x = False"

text \<open>
  Case 2 (lines 49-53): the arguments of the operands, in order, and the union of their
  reduced sets; \<open>None\<close> when an operand is not a \<open>Reduction\<close>.
\<close>

fun merge_reductions :: "funsor list \<Rightarrow> (funsor list \<times> dim set) option" where
  "merge_reductions [] = Some ([], {})"
| "merge_reductions (Reduction g arg reduce_dims # terms) =
     (case merge_reductions terms of
        None \<Rightarrow> None
      | Some (new_operands, new_reduce_dims) \<Rightarrow>
          Some (arg # new_operands, reduce_dims \<union> new_reduce_dims))"
| "merge_reductions (x # terms) = None"

text \<open>Case 1 (lines 39-44): the operands of a nested \<open>Finitary\<close> with the same operator
  replace it.\<close>

fun flatten_operand :: "op \<Rightarrow> funsor \<Rightarrow> funsor list" where
  "flatten_operand f (Finitary g operands) =
     (if g = f then operands else [Finitary g operands])"
| "flatten_operand f x = [x]"

text \<open>
  \<open>deoptimize_finitary\<close> (lines 30-61).  Case 2 is reached with a non-empty list of
  Reductions only (an empty list is taken by case 1); it takes the operator of
  \<open>operands[0]\<close>.
\<close>

definition deoptimize_finitary :: "op \<Rightarrow> funsor list \<Rightarrow> error + funsor" where
  "deoptimize_finitary f operands =
     (if list_all (\<lambda>t. is_Finitary t \<or> is_GROUND_TERM t) operands then
        Inr (Finitary f (concat (map (flatten_operand f) operands)))
      else if list_all is_Reduction operands then
        (case (operands, merge_reductions operands) of
           (Reduction g arg reduce_dims # terms, Some (new_operands, new_reduce_dims)) \<Rightarrow>
             Inr (Reduction g (Finitary f new_operands) new_reduce_dims)
         | _ \<Rightarrow> Inl IndexError)
      else if list_all (\<lambda>t. \<not> (is_Reduction t \<or> is_Finitary t)) operands then
        Inr (Finitary f operands)
      else Inl NotImplementedError)"

subsection \<open>Optimize: \<open>optimize_reduction\<close>\<close>

text \<open>
  The keys that occur in \<open>reduce_dim_counter\<close>.  \<open>Counter.update\<close> is given a dict
  \<open>{d: 1 for d in input}\<close> and adds 1 at each key \<open>d\<close>.  \<open>Counter.subtract\<close> is given
  a generator of tuples \<open>(d, 1)\<close>; for an argument that is not a mapping it counts the
  elements of the iterable, so it subtracts 1 at each key \<open>(d, 1)\<close>, a tuple, and leaves
  the key \<open>d\<close> alone.  A missing key reads as 0.
\<close>

datatype ckey = KDim dim | KPair dim int

type_synonym counter = "ckey \<Rightarrow> int"

definition counter_update :: "counter \<Rightarrow> dim set \<Rightarrow> counter" where
  "counter_update c input =
     (\<lambda>k. case k of KDim d \<Rightarrow> (if d \<in> input then c k + 1 else c k) | KPair d n \<Rightarrow> c k)"

definition counter_subtract :: "counter \<Rightarrow> dim set \<Rightarrow> counter" where
  "counter_subtract c ds =
     (\<lambda>k. case k of KDim d \<Rightarrow> c k
               | KPair d n \<Rightarrow> (if n = 1 \<and> d \<in> ds then c k - 1 else c k))"

text \<open>
  One iteration of the loop over the path (the body, lines 114-127), on the list
  \<open>operands\<close> and the counter.  It yields the new list, the new counter, the term
  \<open>path_end\<close> and the set \<open>path_end_reduce_dims\<close>.  Reading \<open>operands[a]\<close>,
  \<open>operands.pop(b)\<close> and writing \<open>operands[a]\<close> after the pop raise IndexError out
  of range.  Path entries are the non-negative positions the external optimizer returns.
\<close>

definition path_step ::
    "op \<Rightarrow> op \<Rightarrow> dim set \<Rightarrow> nat \<times> nat \<Rightarrow> funsor list \<Rightarrow> counter
     \<Rightarrow> error + (funsor list \<times> counter \<times> funsor \<times> dim set)" where
  "path_step reduce_op finitary_op reduce_dims ab operands c =
     (let a = fst ab; b = snd ab
      in if \<not> a < length operands then Inl IndexError
         else if \<not> b < length operands then Inl IndexError
         else
           (let ta = operands ! a;
                tb = operands ! b;
                operands' = take b operands @ drop (Suc b) operands;
                path_end_finitary = Finitary finitary_op [ta, tb];
                c' = counter_subtract (counter_subtract c (reduce_dims \<inter> set (dims ta)))
                       (reduce_dims \<inter> set (dims tb));
                path_end_reduce_dims =
                  {d \<in> reduce_dims \<inter> (set (dims ta) \<union> set (dims tb)). c' (KDim d) = 0};
                path_end = Reduction reduce_op path_end_finitary path_end_reduce_dims
            in if \<not> a < length operands' then Inl IndexError
               else Inr (operands'[a := path_end], c', path_end, path_end_reduce_dims)))"

text \<open>
  The loop (line 113), with the variable \<open>path_end\<close> (unbound before the first step)
  as part of the state.
\<close>

fun path_loop ::
    "op \<Rightarrow> op \<Rightarrow> dim set \<Rightarrow> (nat \<times> nat) list \<Rightarrow> funsor list \<Rightarrow> counter \<Rightarrow> funsor option
     \<Rightarrow> error + (counter \<times> funsor option)" where
  "path_loop reduce_op finitary_op reduce_dims [] operands c path_end = Inr (c, path_end)"
| "path_loop reduce_op finitary_op reduce_dims (ab # path) operands c path_end =
     (case path_step reduce_op finitary_op reduce_dims ab operands c of
        Inl e \<Rightarrow> Inl e
      | Inr (operands', c', path_end', rd) \<Rightarrow>
          path_loop reduce_op finitary_op reduce_dims path operands' c' (Some path_end'))"

text \<open>
  The reduced sets of the pairwise steps of a run of the loop, in order (the sets
  \<open>path_end_reduce_dims\<close> of line 123).
\<close>

fun step_reduce_dims ::
    "op \<Rightarrow> op \<Rightarrow> dim set \<Rightarrow> (nat \<times> nat) list \<Rightarrow> funsor list \<Rightarrow> counter
     \<Rightarrow> error + dim set list" where
  "step_reduce_dims reduce_op finitary_op reduce_dims [] operands c = Inr []"
| "step_reduce_dims reduce_op finitary_op reduce_dims (ab # path) operands c =
     (case path_step reduce_op finitary_op reduce_dims ab operands c of
        Inl e \<Rightarrow> Inl e
      | Inr (operands', c', path_end', rd) \<Rightarrow>
          (case step_reduce_dims reduce_op finitary_op reduce_dims path operands' c' of
             Inl e \<Rightarrow> Inl e
           | Inr rds \<Rightarrow> Inr (rd # rds)))"

text \<open>
  \<open>optimize_reduction\<close> (lines 83-134).  The path optimizer \<open>greedy\<close> of the external
  library \<open>opt_einsum\<close> is a parameter; it receives the operands' dim sets, the output
  dims and the size table (every dim has size 2).  Returning \<open>path_end\<close> when the path
  was empty raises \<open>UnboundLocalError\<close>.
\<close>

type_synonym greedy = "dim set list \<Rightarrow> dim set \<Rightarrow> (dim \<rightharpoonup> nat) \<Rightarrow> (nat \<times> nat) list"

definition optimizer_path :: "greedy \<Rightarrow> funsor list \<Rightarrow> dim set \<Rightarrow> (nat \<times> nat) list" where
  "optimizer_path greedy operands reduce_dims =
     (let inputs = map (\<lambda>operand. set (dims operand)) operands;
          size_dict = (\<lambda>d. if d \<in> \<Union> (set inputs) then Some 2 else None);
          outputs = \<Union> (set inputs) - reduce_dims
      in greedy inputs outputs size_dict)"

definition initial_counter :: "funsor list \<Rightarrow> counter" where
  "initial_counter operands =
     foldl counter_update (\<lambda>k. 0) (map (\<lambda>operand. set (dims operand)) operands)"

definition optimize_reduction :: "greedy \<Rightarrow> op \<Rightarrow> funsor \<Rightarrow> dim set \<Rightarrow> error + funsor" where
  "optimize_reduction greedy f arg reduce_dims =
     (case arg of
        Finitary g operands \<Rightarrow>
          (let path = optimizer_path greedy operands reduce_dims;
               reduce_dim_counter = initial_counter operands
           in case path_loop f g reduce_dims path operands reduce_dim_counter None of
                Inl e \<Rightarrow> Inl e
              | Inr (c, path_end) \<Rightarrow>
                  (let final_reduce_dims = {d \<in> reduce_dims. c (KDim d) > 0}
                   in case path_end of
                        None \<Rightarrow> Inl UnboundLocalError
                      | Some pe \<Rightarrow>
                          (if final_reduce_dims \<noteq> {} then Inr (Reduction f pe final_reduce_dims)
                           else Inr pe)))
      | _ \<Rightarrow> Inr (Reduction f arg reduce_dims))"

text \<open>
  The reduced sets of the pairwise steps in a run of \<open>optimize_reduction\<close> on
  \<open>Reduction(f, Finitary(g, operands), reduce_dims)\<close>.
\<close>

definition optimizer_step_sets ::
    "greedy \<Rightarrow> op \<Rightarrow> op \<Rightarrow> funsor list \<Rightarrow> dim set \<Rightarrow> error + dim set list" where
  "optimizer_step_sets greedy f g operands reduce_dims =
     step_reduce_dims f g reduce_dims (optimizer_path greedy operands reduce_dims)
       operands (initial_counter operands)"

text \<open>
  A path that the loop can follow on \<open>n\<close> operands down to a single term: every step
  names two positions \<open>a < b\<close> of the current list, and one operand is left at the end.
\<close>

fun valid_path :: "nat \<Rightarrow> (nat \<times> nat) list \<Rightarrow> bool" where
  "valid_path n [] = (n = 1)"
| "valid_path n ((a, b) # path) = (a < b \<and> b < n \<and> valid_path (n - 1) path)"

text \<open>The union of the operands' dims.\<close>

definition all_dims :: "funsor list \<Rightarrow> dim set" where
  "all_dims xs = (\<Union>x \<in> set xs. set (dims x))"

section \<open>Properties\<close>

subsection \<open>The canonicalize stage rejects mixed operands\<close>

text \<open>
  C6.  A \<open>Finitary\<close> with at least one \<open>Reduction\<close> operand and at least one operand
  that is a ground term or a \<open>Finitary\<close> is rejected by \<open>deoptimize_finitary\<close> with
  \<open>NotImplementedError\<close>; none of the three rewrite cases is taken.
\<close>

theorem deoptimize_finitary_mixed_raises:
  assumes "\<exists>t \<in> set operands. is_Reduction t"
    and "\<exists>t \<in> set operands. is_GROUND_TERM t \<or> is_Finitary t"
  shows "deoptimize_finitary f operands = Inl NotImplementedError"
proof -
  from assms(1) obtain r where r: "r \<in> set operands" "is_Reduction r" by blast
  from assms(2) obtain g where g: "g \<in> set operands" "is_GROUND_TERM g \<or> is_Finitary g"
    by blast
  have r_not: "\<not> (is_Finitary r \<or> is_GROUND_TERM r)"
    using r(2) by (cases r) simp_all
  have g_not: "\<not> is_Reduction g"
    using g(2) by (cases g) auto
  have c1: "\<not> list_all (\<lambda>t. is_Finitary t \<or> is_GROUND_TERM t) operands"
    using r(1) r_not by (auto simp: list_all_iff)
  have c2: "\<not> list_all is_Reduction operands"
    using g(1) g_not by (auto simp: list_all_iff)
  have c3: "\<not> list_all (\<lambda>t. \<not> (is_Reduction t \<or> is_Finitary t)) operands"
    using r(1) r(2) by (auto simp: list_all_iff)
  show ?thesis
    unfolding deoptimize_finitary_def using c1 c2 c3 by simp
qed

theorem deoptimize_finitary_mixed_raises_witness:
  "deoptimize_finitary ops_mul
     [Reduction ops_add (Variable ''i'' (Card 3)) {''i''}, Number (PyInt 2)]
   = Inl NotImplementedError"
  using deoptimize_finitary_mixed_raises
    [of "[Reduction ops_add (Variable ''i'' (Card 3)) {''i''}, Number (PyInt 2)]" ops_mul]
  by simp

subsection \<open>The generic contraction handlers\<close>

text \<open>
  C7.  The generic handlers hand the frozenset of dims to \<open>Contract.__init__\<close>, whose
  assertion \<open>dim in lhs.dims and dim in rhs.dims\<close> compares it with dimension names:
  for all operands and every set of dims the construction raises \<open>AssertionError\<close>, and
  so does the registry whenever it selects a generic handler.  No lazy \<open>Contract\<close> node
  is returned.
\<close>

theorem generic_contract_raises:
  "sumproduct lhs rhs reduce_dims = Inl AssertionError
   \<and> logsumproductexp lhs rhs reduce_dims = Inl AssertionError
   \<and> (\<not> both_tensors lhs rhs \<longrightarrow>
        contract es_sum es_log (ops_add, ops_mul) lhs rhs reduce_dims = Inl AssertionError
      \<and> contract es_sum es_log (ops_logaddexp, ops_add) lhs rhs reduce_dims
          = Inl AssertionError)"
proof -
  have s: "sumproduct lhs rhs reduce_dims = Inl AssertionError"
    by (simp add: sumproduct_def Contract_init_def)
  have l: "logsumproductexp lhs rhs reduce_dims = Inl AssertionError"
    by (simp add: logsumproductexp_def Contract_init_def)
  have distinct_keys: "(ops_logaddexp, ops_add) \<noteq> (ops_add, ops_mul)"
    by (simp add: ops_logaddexp_def ops_add_def ops_mul_def)
  have c: "\<not> both_tensors lhs rhs \<Longrightarrow>
      contract es_sum es_log (ops_add, ops_mul) lhs rhs reduce_dims = Inl AssertionError
    \<and> contract es_sum es_log (ops_logaddexp, ops_add) lhs rhs reduce_dims
        = Inl AssertionError"
    using s l distinct_keys
    by (auto simp: contract_def both_tensors_def split: funsor.splits)
  show ?thesis using s l c by blast
qed

theorem generic_contract_raises_witness:
  "\<not> both_tensors (Variable ''i'' (Card 2)) (Variable ''i'' (Card 2))
   \<and> contract (\<lambda>ldata ld rdata rd ds. ldata) (\<lambda>ldata ld rdata rd ds. ldata) (ops_add, ops_mul)
       (Variable ''i'' (Card 2)) (Variable ''i'' (Card 2)) {''i''} = Inl AssertionError"
  using generic_contract_raises
    [of "Variable ''i'' (Card 2)" "Variable ''i'' (Card 2)" "{''i''}"
        "\<lambda>ldata ld rdata rd ds. ldata" "\<lambda>ldata ld rdata rd ds. ldata"]
  by (simp add: both_tensors_def)


subsection \<open>The optimizer stage\<close>

text \<open>Schemas: the keys after an update, the dims of the nodes the optimizer builds.\<close>

lemma od_set_keys: "fst ` set (od_set s k v) = insert k (fst ` set s)"
  by (induction s k v rule: od_set.induct) auto

lemma od_update_keys: "fst ` set (od_update s t) = fst ` set s \<union> fst ` set t"
  unfolding od_update_def
  by (induction t arbitrary: s) (auto simp: od_set_keys)

lemma keys_zip: "length ds = length sh \<Longrightarrow> fst ` set (zip ds sh) = set ds"
  by (induction ds sh rule: list_induct2) auto

lemma dims_Finitary_pair:
  assumes "length (dims ta) = length (shape ta)" "length (dims tb) = length (shape tb)"
  shows "set (dims (Finitary f [ta, tb])) = set (dims ta) \<union> set (dims tb)"
proof -
  have "set (dims (Finitary f [ta, tb]))
        = fst ` set (od_update (od_update [] (zip (dims ta) (shape ta))) (zip (dims tb) (shape tb)))"
    by (simp add: dims_def shape_def Let_def)
  also have "\<dots> = fst ` set (zip (dims ta) (shape ta)) \<union> fst ` set (zip (dims tb) (shape tb))"
    by (simp add: od_update_keys)
  finally show ?thesis using assms by (simp add: keys_zip)
qed

lemma lengths_Finitary: "length (dims (Finitary f xs)) = length (shape (Finitary f xs))"
  by (simp add: dims_def shape_def Let_def)

lemma length_filter_zip:
  "length ds = length sh \<Longrightarrow>
   length (filter (\<lambda>kv. fst kv \<notin> R) (zip ds sh)) = length (filter (\<lambda>d. d \<notin> R) ds)"
  by (induction ds sh rule: list_induct2) auto

lemma lengths_Reduction:
  "length (dims x) = length (shape x) \<Longrightarrow>
   length (dims (Reduction f x R)) = length (shape (Reduction f x R))"
  by (simp add: dims_def shape_def Let_def length_filter_zip)

lemma dims_Reduction: "set (dims (Reduction f x R)) = set (dims x) - R"
  by (auto simp: dims_def Let_def)

lemma counter_subtract_KDim: "counter_subtract c S (KDim d) = c (KDim d)"
  by (simp add: counter_subtract_def)

text \<open>
  Two operands mention \<open>j\<close>; after the subtraction for one of them the entry of \<open>j\<close> is
  still 2, and the entry of the tuple \<open>(j, 1)\<close> is -1.
\<close>

lemma counter_subtract_example:
  "counter_subtract (initial_counter [Variable ''j'' (Card 2), Variable ''j'' (Card 2)]) {''j''}
     (KDim ''j'') = 2
   \<and> counter_subtract (initial_counter [Variable ''j'' (Card 2), Variable ''j'' (Card 2)]) {''j''}
     (KPair ''j'' 1) = - 1"
  by (simp add: counter_subtract_def initial_counter_def counter_update_def dims_def)

lemma foldl_counter_update_KDim:
  "foldl counter_update c inputs (KDim d) = c (KDim d) + int (length (filter (\<lambda>I. d \<in> I) inputs))"
  by (induction inputs arbitrary: c) (auto simp: counter_update_def)

lemma initial_counter_pos: "(initial_counter operands (KDim d) > 0) = (d \<in> all_dims operands)"
  unfolding initial_counter_def all_dims_def foldl_counter_update_KDim
  by (auto simp: filter_empty_conv o_def)


lemma initial_counter_nonzero:
  assumes "d \<in> all_dims operands"
  shows "initial_counter operands (KDim d) \<noteq> 0"
proof -
  from assms have "0 < initial_counter operands (KDim d)"
    by (simp add: initial_counter_pos)
  then show ?thesis by simp
qed

lemma split_two:
  assumes "a < b" "b < length xs"
  shows "\<exists>us vs ws. xs = us @ (xs ! a) # vs @ (xs ! b) # ws \<and> length us = a
           \<and> length (us @ (xs ! a) # vs) = b"
proof -
  have 1: "xs = take b xs @ (xs ! b) # drop (Suc b) xs"
    using assms(2) by (rule id_take_nth_drop)
  have a': "a < length (take b xs)" using assms by simp
  have 2: "take b xs = take a (take b xs) @ (take b xs ! a) # drop (Suc a) (take b xs)"
    using a' by (rule id_take_nth_drop)
  have 3: "take b xs ! a = xs ! a" using assms by simp
  let ?us = "take a (take b xs)" and ?vs = "drop (Suc a) (take b xs)" and ?ws = "drop (Suc b) xs"
  have "xs = ?us @ (xs ! a) # ?vs @ (xs ! b) # ?ws"
    using 1 2 3 by (metis append.assoc append_Cons)
  moreover have "length ?us = a" using assms by simp
  moreover have "length (?us @ (xs ! a) # ?vs) = b" using assms by simp
  ultimately show ?thesis by blast
qed

lemma path_step_valid:
  assumes "a < b" "b < length operands"
  shows "\<exists>pe. path_step f g D (a, b) operands c =
           Inr ((take b operands @ drop (Suc b) operands)[a := pe],
                counter_subtract (counter_subtract c (D \<inter> set (dims (operands ! a))))
                  (D \<inter> set (dims (operands ! b))),
                pe,
                {d \<in> D \<inter> (set (dims (operands ! a)) \<union> set (dims (operands ! b))). c (KDim d) = 0})
         \<and> pe = Reduction f (Finitary g [operands ! a, operands ! b])
                  {d \<in> D \<inter> (set (dims (operands ! a)) \<union> set (dims (operands ! b))). c (KDim d) = 0}"
  using assms by (simp add: path_step_def Let_def counter_subtract_KDim)

lemma pop_update_form:
  assumes "length us = a" "b = Suc (a + length vs)"
  shows "(take b (us @ ta # vs @ tb # ws) @ drop (Suc b) (us @ ta # vs @ tb # ws))[a := pe]
         = us @ pe # vs @ ws"
proof -
  have t: "take b (us @ ta # vs @ tb # ws) = us @ ta # vs"
    using assms by simp
  have d: "drop (Suc b) (us @ ta # vs @ tb # ws) = ws"
    using assms by simp
  show ?thesis unfolding t d using assms(1) by (simp add: list_update_append)
qed

lemma all_dims_step:
  assumes "a < b" "b < length xs" "set (dims pe) = set (dims (xs ! a)) \<union> set (dims (xs ! b))"
  shows "all_dims ((take b xs @ drop (Suc b) xs)[a := pe]) = all_dims xs"
proof -
  define ta where "ta = xs ! a"
  define tb where "tb = xs ! b"
  from split_two[OF assms(1,2)] obtain us vs ws where
    xs: "xs = us @ ta # vs @ tb # ws" and la: "length us = a"
    and lb: "length (us @ ta # vs) = b" unfolding ta_def tb_def by blast
  have lb': "b = Suc (a + length vs)" using la lb by simp
  have upd: "(take b xs @ drop (Suc b) xs)[a := pe] = us @ pe # vs @ ws"
    unfolding xs by (rule pop_update_form[OF la lb'])
  have "all_dims (us @ pe # vs @ ws) = all_dims (us @ ta # vs @ tb # ws)"
    using assms(3) unfolding ta_def[symmetric] tb_def[symmetric] by (auto simp: all_dims_def)
  then show ?thesis
    using upd xs by simp
qed

lemma singleton_nth: "length xs = Suc 0 \<Longrightarrow> xs ! 0 = v \<Longrightarrow> xs = [v]"
  by (cases xs) auto

lemma path_loop_valid:
  assumes "valid_path (length operands) path"
    and "\<forall>d \<in> all_dims operands. c (KDim d) \<noteq> 0"
    and "\<forall>x \<in> set operands. length (dims x) = length (shape x)"
  shows "\<exists>c' pe'. path_loop f g D path operands c pe = Inr (c', pe')
           \<and> (\<forall>d. c' (KDim d) = c (KDim d))
           \<and> (if path = [] then pe' = pe
              else \<exists>p. pe' = Some p \<and> set (dims p) = all_dims operands)"
  using assms
proof (induction path arbitrary: operands c pe)
  case Nil
  then show ?case by simp
next
  case (Cons ab path)
  obtain a b where ab: "ab = (a, b)" by (cases ab)
  from Cons.prems(1) ab have a: "a < b" and b: "b < length operands"
    and rest: "valid_path (length operands - 1) path" by simp_all
  let ?ta = "operands ! a" and ?tb = "operands ! b"
  let ?rd = "{d \<in> D \<inter> (set (dims ?ta) \<union> set (dims ?tb)). c (KDim d) = 0}"
  let ?pe = "Reduction f (Finitary g [?ta, ?tb]) ?rd"
  let ?ops = "(take b operands @ drop (Suc b) operands)[a := ?pe]"
  let ?c = "counter_subtract (counter_subtract c (D \<inter> set (dims ?ta))) (D \<inter> set (dims ?tb))"
  have mem: "?ta \<in> set operands" "?tb \<in> set operands"
    using a b by simp_all
  then have lta: "length (dims ?ta) = length (shape ?ta)"
    and ltb: "length (dims ?tb) = length (shape ?tb)"
    using Cons.prems(3) by blast+
  from mem have ta_in: "set (dims ?ta) \<subseteq> all_dims operands"
    and tb_in: "set (dims ?tb) \<subseteq> all_dims operands"
    unfolding all_dims_def by blast+
  have rd_empty: "?rd = {}"
    using Cons.prems(2) ta_in tb_in by auto
  have pe_dims: "set (dims ?pe) = set (dims ?ta) \<union> set (dims ?tb)"
    by (subst rd_empty) (simp add: dims_Reduction dims_Finitary_pair[OF lta ltb])
  have pe_len: "length (dims ?pe) = length (shape ?pe)"
    by (intro lengths_Reduction lengths_Finitary)
  have "set ?ops \<subseteq> insert ?pe (set (take b operands @ drop (Suc b) operands))"
    by (rule set_update_subset_insert)
  also have "\<dots> \<subseteq> insert ?pe (set operands)"
    using set_take_subset[of b operands] set_drop_subset[of "Suc b" operands] by auto
  finally have lens: "\<forall>x \<in> set ?ops. length (dims x) = length (shape x)"
    using pe_len Cons.prems(3) by blast
  have step: "path_step f g D ab operands c = Inr (?ops, ?c, ?pe, ?rd)"
    using path_step_valid[OF a b, of f g D c] ab by simp
  have U: "all_dims ?ops = all_dims operands"
    by (rule all_dims_step[OF a b pe_dims])
  have len: "length ?ops = length operands - 1"
    using a b by simp
  have cK: "\<And>d. ?c (KDim d) = c (KDim d)"
    by (simp add: counter_subtract_KDim)
  have inv: "\<forall>d \<in> all_dims ?ops. ?c (KDim d) \<noteq> 0"
    using Cons.prems(2) U cK by simp
  from Cons.IH[of ?ops ?c "Some ?pe"] rest len inv lens
  obtain c' pe' where run: "path_loop f g D path ?ops ?c (Some ?pe) = Inr (c', pe')"
    and c': "\<forall>d. c' (KDim d) = ?c (KDim d)"
    and fin: "if path = [] then pe' = Some ?pe
              else \<exists>p. pe' = Some p \<and> set (dims p) = all_dims ?ops"
    by auto
  have whole: "path_loop f g D (ab # path) operands c pe = Inr (c', pe')"
    using step run by simp
  have "\<exists>p. pe' = Some p \<and> set (dims p) = all_dims operands"
  proof (cases "path = []")
    case True
    with rest len have l1: "length ?ops = Suc 0" by simp
    have a0: "a = 0" using a b len l1 by simp
    have "?ops ! a = ?pe"
      by (rule nth_list_update_eq) (use a b in simp)
    then have "?ops ! 0 = ?pe" using a0 by simp
    with l1 have "?ops = [?pe]"
      by (rule singleton_nth)
    then have "all_dims ?ops = set (dims ?pe)"
      by (simp only: all_dims_def) simp
    with U have "set (dims ?pe) = all_dims operands" by simp
    with fin True show ?thesis by simp
  next
    case False
    with fin U show ?thesis by simp
  qed
  with whole c' cK show ?case by auto
qed


lemma step_reduce_dims_valid:
  assumes "valid_path (length operands) path"
    and "\<forall>d \<in> all_dims operands. c (KDim d) \<noteq> 0"
    and "\<forall>x \<in> set operands. length (dims x) = length (shape x)"
  shows "step_reduce_dims f g D path operands c = Inr (replicate (length path) {})"
  using assms
proof (induction path arbitrary: operands c)
  case Nil
  then show ?case by simp
next
  case (Cons ab path)
  obtain a b where ab: "ab = (a, b)" by (cases ab)
  from Cons.prems(1) ab have a: "a < b" and b: "b < length operands"
    and rest: "valid_path (length operands - 1) path" by simp_all
  let ?ta = "operands ! a" and ?tb = "operands ! b"
  let ?rd = "{d \<in> D \<inter> (set (dims ?ta) \<union> set (dims ?tb)). c (KDim d) = 0}"
  let ?pe = "Reduction f (Finitary g [?ta, ?tb]) ?rd"
  let ?ops = "(take b operands @ drop (Suc b) operands)[a := ?pe]"
  let ?c = "counter_subtract (counter_subtract c (D \<inter> set (dims ?ta))) (D \<inter> set (dims ?tb))"
  have mem: "?ta \<in> set operands" "?tb \<in> set operands"
    using a b by simp_all
  then have lta: "length (dims ?ta) = length (shape ?ta)"
    and ltb: "length (dims ?tb) = length (shape ?tb)"
    using Cons.prems(3) by blast+
  from mem have ta_in: "set (dims ?ta) \<subseteq> all_dims operands"
    and tb_in: "set (dims ?tb) \<subseteq> all_dims operands"
    unfolding all_dims_def by blast+
  have rd_empty: "?rd = {}"
    using Cons.prems(2) ta_in tb_in by auto
  have pe_dims: "set (dims ?pe) = set (dims ?ta) \<union> set (dims ?tb)"
    by (subst rd_empty) (simp add: dims_Reduction dims_Finitary_pair[OF lta ltb])
  have pe_len: "length (dims ?pe) = length (shape ?pe)"
    by (intro lengths_Reduction lengths_Finitary)
  have "set ?ops \<subseteq> insert ?pe (set (take b operands @ drop (Suc b) operands))"
    by (rule set_update_subset_insert)
  also have "\<dots> \<subseteq> insert ?pe (set operands)"
    using set_take_subset[of b operands] set_drop_subset[of "Suc b" operands] by auto
  finally have lens: "\<forall>x \<in> set ?ops. length (dims x) = length (shape x)"
    using pe_len Cons.prems(3) by blast
  have step: "path_step f g D ab operands c = Inr (?ops, ?c, ?pe, ?rd)"
    using path_step_valid[OF a b, of f g D c] ab by simp
  have U: "all_dims ?ops = all_dims operands"
    by (rule all_dims_step[OF a b pe_dims])
  have len: "length ?ops = length operands - 1"
    using a b by simp
  have inv: "\<forall>d \<in> all_dims ?ops. ?c (KDim d) \<noteq> 0"
    using Cons.prems(2) U by (simp add: counter_subtract_KDim)
  have run: "step_reduce_dims f g D path ?ops ?c = Inr (replicate (length path) {})"
    using Cons.IH[of ?ops ?c] rest len inv lens by simp
  have "step_reduce_dims f g D (ab # path) operands c = Inr (?rd # replicate (length path) {})"
    using step run by simp
  then show ?case using rd_empty by simp
qed

text \<open>
  C1.  Let the operands be constructed terms (they pass the assertions of
  \<open>Funsor.__init__\<close>), and let the external optimizer return, for at least two operands,
  a path the loop can follow to a single term (\<open>valid_path\<close>).  Then \<open>optimize_reduction\<close> returns a term,
  and its free dims are the union of the operands' dims minus the eliminated set: every
  eliminated dim that occurs in an operand is gone from the result.
\<close>

theorem optimize_reduction_dims:
  assumes "2 \<le> length operands"
    and "valid_path (length operands) (optimizer_path greedy operands D)"
    and "\<forall>x \<in> set operands. Funsor_init_ok x"
  shows "\<exists>t. optimize_reduction greedy f (Finitary g operands) D = Inr t
           \<and> set (dims t) = (\<Union>x \<in> set operands. set (dims x)) - D"
proof -
  let ?path = "optimizer_path greedy operands D"
  let ?c0 = "initial_counter operands"
  have ne: "?path \<noteq> []"
    using assms by (cases ?path) auto
  have inv: "\<forall>d \<in> all_dims operands. ?c0 (KDim d) \<noteq> 0"
    by (simp add: initial_counter_nonzero)
  have lens: "\<forall>x \<in> set operands. length (dims x) = length (shape x)"
    using assms(3) by (simp add: Funsor_init_ok_def)
  from path_loop_valid[OF assms(2) inv lens, of f g D None] ne
  obtain c pe where run: "path_loop f g D ?path operands ?c0 None = Inr (c, Some pe)"
    and c: "\<forall>d. c (KDim d) = ?c0 (KDim d)"
    and pe: "set (dims pe) = all_dims operands"
    by auto
  let ?final = "{d \<in> D. c (KDim d) > 0}"
  have final: "?final = D \<inter> all_dims operands"
    using c initial_counter_pos[of operands] by auto
  have res: "optimize_reduction greedy f (Finitary g operands) D
             = Inr (if ?final \<noteq> {} then Reduction f pe ?final else pe)"
    using run by (simp add: optimize_reduction_def Let_def)
  have "set (dims (if ?final \<noteq> {} then Reduction f pe ?final else pe)) = all_dims operands - D"
  proof (cases "?final = {}")
    case True
    with final pe show ?thesis by auto
  next
    case False
    then have "set (dims (if ?final \<noteq> {} then Reduction f pe ?final else pe))
               = set (dims pe) - ?final"
      by (simp only: if_True dims_Reduction simp_thms)
    with final pe show ?thesis by auto
  qed
  with res show ?thesis unfolding all_dims_def by blast
qed

theorem optimize_reduction_dims_witness:
  "2 \<le> length [Binary ops_mul (Variable ''i'' (Card 2)) (Variable ''j'' (Card 2)),
                 Binary ops_mul (Variable ''j'' (Card 2)) (Variable ''k'' (Card 2)),
                 Binary ops_mul (Variable ''k'' (Card 2)) (Variable ''l'' (Card 2))]
   \<and> valid_path 3 [(0, 1), (0, 1)]
   \<and> list_all Funsor_init_ok
         [Binary ops_mul (Variable ''i'' (Card 2)) (Variable ''j'' (Card 2)),
          Binary ops_mul (Variable ''j'' (Card 2)) (Variable ''k'' (Card 2)),
          Binary ops_mul (Variable ''k'' (Card 2)) (Variable ''l'' (Card 2))]
   \<and> (\<exists>t. optimize_reduction (\<lambda>inputs outputs size_dict. [(0, 1), (0, 1)]) ops_add
            (Finitary ops_mul
               [Binary ops_mul (Variable ''i'' (Card 2)) (Variable ''j'' (Card 2)),
                Binary ops_mul (Variable ''j'' (Card 2)) (Variable ''k'' (Card 2)),
                Binary ops_mul (Variable ''k'' (Card 2)) (Variable ''l'' (Card 2))])
            {''j'', ''k''} = Inr t
          \<and> set (dims t) = {''i'', ''l''})"
proof -
  let ?ops = "[Binary ops_mul (Variable ''i'' (Card 2)) (Variable ''j'' (Card 2)),
               Binary ops_mul (Variable ''j'' (Card 2)) (Variable ''k'' (Card 2)),
               Binary ops_mul (Variable ''k'' (Card 2)) (Variable ''l'' (Card 2))]"
  have l: "2 \<le> length ?ops" by simp
  have v: "valid_path (length ?ops)
             (optimizer_path (\<lambda>inputs outputs size_dict. [(0, 1), (0, 1)]) ?ops {''j'', ''k''})"
    by (simp add: optimizer_path_def)
  have w: "\<forall>x \<in> set ?ops. Funsor_init_ok x"
    by (simp add: Funsor_init_ok_def dims_def shape_def od_update_def valid_size_def)
  have u: "(\<Union>x \<in> set ?ops. set (dims x)) - {''j'', ''k''} = {''i'', ''l''}"
    by (auto simp: dims_def od_update_def)
  show ?thesis
    using optimize_reduction_dims[OF l v w, of ops_add ops_mul] u w
    by (simp add: list_all_iff)
qed

text \<open>
  C2.  On such a run every pairwise step has an empty reduced set: the counter entry of
  a dim is never decreased (the subtraction goes to the tuple keys), so it stays at the
  number of operands that mention the dim and is not zero at any step.  No dim is
  retired at a pairwise step at all, hence none before every operand that mentions it
  has been folded in; the eliminated dims all go in the trailing \<open>Reduction\<close>.
\<close>

theorem pairwise_steps_never_reduce_early:
  assumes "valid_path (length operands) (optimizer_path greedy operands D)"
    and "\<forall>x \<in> set operands. Funsor_init_ok x"
  shows "optimizer_step_sets greedy f g operands D
         = Inr (replicate (length (optimizer_path greedy operands D)) {})"
proof -
  have inv: "\<forall>d \<in> all_dims operands. initial_counter operands (KDim d) \<noteq> 0"
    by (simp add: initial_counter_nonzero)
  have lens: "\<forall>x \<in> set operands. length (dims x) = length (shape x)"
    using assms(2) by (simp add: Funsor_init_ok_def)
  show ?thesis
    unfolding optimizer_step_sets_def
    by (rule step_reduce_dims_valid[OF assms(1) inv lens])
qed

theorem pairwise_steps_never_reduce_early_witness:
  "valid_path 3 [(0, 1), (0, 1)]
   \<and> list_all Funsor_init_ok
         [Binary ops_mul (Variable ''i'' (Card 2)) (Variable ''j'' (Card 2)),
          Binary ops_mul (Variable ''j'' (Card 2)) (Variable ''k'' (Card 2)),
          Binary ops_mul (Variable ''k'' (Card 2)) (Variable ''l'' (Card 2))]
   \<and> optimizer_step_sets (\<lambda>inputs outputs size_dict. [(0, 1), (0, 1)]) ops_add ops_mul
       [Binary ops_mul (Variable ''i'' (Card 2)) (Variable ''j'' (Card 2)),
        Binary ops_mul (Variable ''j'' (Card 2)) (Variable ''k'' (Card 2)),
        Binary ops_mul (Variable ''k'' (Card 2)) (Variable ''l'' (Card 2))]
       {''j'', ''k''} = Inr [{}, {}]"
proof -
  let ?ops = "[Binary ops_mul (Variable ''i'' (Card 2)) (Variable ''j'' (Card 2)),
               Binary ops_mul (Variable ''j'' (Card 2)) (Variable ''k'' (Card 2)),
               Binary ops_mul (Variable ''k'' (Card 2)) (Variable ''l'' (Card 2))]"
  have v: "valid_path (length ?ops)
             (optimizer_path (\<lambda>inputs outputs size_dict. [(0, 1), (0, 1)]) ?ops {''j'', ''k''})"
    by (simp add: optimizer_path_def)
  have w: "\<forall>x \<in> set ?ops. Funsor_init_ok x"
    by (simp add: Funsor_init_ok_def dims_def shape_def od_update_def valid_size_def)
  show ?thesis
    using pairwise_steps_never_reduce_early[OF v w, of ops_add ops_mul] w
    by (simp add: optimizer_path_def list_all_iff)
qed


subsection \<open>\<open>reduce\<close>\<close>










text \<open>
  C10, as stated, fails on an \<open>Align\<close> view: its \<open>reduce\<close> delegates to the argument,
  so with no applicable dims the argument is returned, not the view.
\<close>

theorem reduce_no_dims_Align_counterexample:
  "{''k''} \<inter> set (dims (Align (Variable ''i'' (Card 3)) [''i'', ''j''] [Card 3, Card 4])) = {}
   \<and> reduce null_backend (Align (Variable ''i'' (Card 3)) [''i'', ''j''] [Card 3, Card 4])
        ops_add (DimsSet {''k''})
      = Variable ''i'' (Card 3)
   \<and> reduce null_backend (Align (Variable ''i'' (Card 3)) [''i'', ''j''] [Card 3, Card 4])
        ops_add (DimsSet {''k''})
      \<noteq> Align (Variable ''i'' (Card 3)) [''i'', ''j''] [Card 3, Card 4]"
  by (simp add: dims_def Funsor_reduce_def)

text \<open>
  C10, amended.  For a term \<open>x\<close> that is not an \<open>Align\<close> view and a set of dims that
  shares no dim with \<open>x\<close>, \<open>x.reduce(op, dims)\<close> returns \<open>x\<close> itself.  An \<open>Align\<close> view
  returns what its argument's \<open>reduce\<close> returns.
\<close>

theorem reduce_no_dims_identity:
  "(\<not> is_Align x \<longrightarrow> S \<inter> set (dims x) = {} \<longrightarrow> reduce B x f (DimsSet S) = x)
   \<and> reduce B (Align arg ds sh) f d = reduce B arg f d"
proof -
  have "reduce B x f (DimsSet S) = x" if "\<not> is_Align x" "S \<inter> set (dims x) = {}"
  proof (cases x)
    case (Reduction g a rd)
    with that show ?thesis
      by (auto simp: Funsor_reduce_def)
  next
    case (Tensor sdims data)
    with that have "set sdims \<inter> S = {}" by (auto simp: dims_def)
    with that Tensor show ?thesis
      by (simp add: Tensor_reduce_def Funsor_reduce_def Let_def)
  qed (use that in \<open>simp_all add: Funsor_reduce_def\<close>)
  then show ?thesis by simp
qed

theorem reduce_no_dims_identity_witness:
  "\<not> is_Align (Reduction ops_add (Binary ops_mul (Variable ''i'' (Card 3)) (Variable ''j'' (Card 4))) {''i''})
   \<and> {''i'', ''k''} \<inter> set (dims (Reduction ops_add
         (Binary ops_mul (Variable ''i'' (Card 3)) (Variable ''j'' (Card 4))) {''i''})) = {}
   \<and> reduce null_backend
        (Reduction ops_add (Binary ops_mul (Variable ''i'' (Card 3)) (Variable ''j'' (Card 4))) {''i''})
        ops_add (DimsSet {''i'', ''k''})
      = Reduction ops_add (Binary ops_mul (Variable ''i'' (Card 3)) (Variable ''j'' (Card 4))) {''i''}"
proof -
  let ?x = "Reduction ops_add (Binary ops_mul (Variable ''i'' (Card 3)) (Variable ''j'' (Card 4))) {''i''}"
  have a: "\<not> is_Align ?x" by simp
  have d: "{''i'', ''k''} \<inter> set (dims ?x) = {}"
    by (simp add: dims_def od_update_def)
  from reduce_no_dims_identity[of ?x "{''i'', ''k''}" null_backend ops_add] a d
  have "reduce null_backend ?x ops_add (DimsSet {''i'', ''k''}) = ?x" by blast
  with a d show ?thesis by blast
qed

subsection \<open>Scalar coercion\<close>

text \<open>
  C9, as stated, fails on a \<open>Tensor\<close>: its \<open>__bool__\<close> and \<open>item\<close> hand the data to the
  backend, which reads a one-element tensor as a scalar although its shape \<open>(1,)\<close> is
  not empty.
\<close>

theorem scalar_coercion_Tensor_counterexample:
  "shape (Tensor [''i''] (TorchTensor [1] [PyInt 5])) \<noteq> []
   \<and> bool_of (Tensor [''i''] (TorchTensor [1] [PyInt 5])) = Inr True
   \<and> item (Tensor [''i''] (TorchTensor [1] [PyInt 5])) = Inr (PyInt 5)"
  by (simp add: shape_def torch_bool_def torch_item_def)

text \<open>
  C9, amended.  For a term that is not a \<open>Tensor\<close> and has a non-empty shape, \<open>bool(x)\<close>
  and \<open>x.item()\<close> raise \<open>ValueError\<close>.  A \<open>Tensor\<close> delegates both to its backend
  data, which rejects data that does not hold exactly one element.
\<close>

theorem scalar_coercion_rejected:
  "(\<not> is_Tensor x \<longrightarrow> shape x \<noteq> [] \<longrightarrow> bool_of x = Inl ValueError \<and> item x = Inl ValueError)
   \<and> bool_of (Tensor ds data) = torch_bool data
   \<and> item (Tensor ds data) = torch_item data
   \<and> (length (tdata data) \<noteq> 1 \<longrightarrow>
        bool_of (Tensor ds data) = Inl RuntimeError \<and> item (Tensor ds data) = Inl ValueError)"
proof -
  have 1: "bool_of x = Inl ValueError \<and> item x = Inl ValueError"
    if "\<not> is_Tensor x" "shape x \<noteq> []"
    using that by (cases x) (simp_all add: Funsor_bool_def Funsor_item_def shape_def)
  have 2: "bool_of (Tensor ds data) = Inl RuntimeError \<and> item (Tensor ds data) = Inl ValueError"
    if "length (tdata data) \<noteq> 1"
    using that by (cases "tdata data"; cases "tl (tdata data)")
      (auto simp: torch_bool_def torch_item_def split: list.splits)
  show ?thesis using 1 2 by simp
qed

theorem scalar_coercion_rejected_witness:
  "\<not> is_Tensor (Variable ''i'' (Card 3)) \<and> shape (Variable ''i'' (Card 3)) \<noteq> []
   \<and> bool_of (Variable ''i'' (Card 3)) = Inl ValueError
   \<and> item (Variable ''i'' (Card 3)) = Inl ValueError
   \<and> length (tdata (TorchTensor [2] [PyInt 1, PyInt 0])) \<noteq> 1
   \<and> bool_of (Tensor [''i''] (TorchTensor [2] [PyInt 1, PyInt 0])) = Inl RuntimeError"
  using scalar_coercion_rejected
    [of "Variable ''i'' (Card 3)" "[''i'']" "TorchTensor [2] [PyInt 1, PyInt 0]"]
  by (simp add: shape_def)


subsection \<open>Interning\<close>

lemma cons_call_cached:
  assumes "ConsHashedMeta_call init_args init cls args kwargs st = Inr (i, st1)"
    and "kwargs_to_args init_args cls args kwargs = Inr a"
  shows "cache st1 (cls, a) = Some i"
  using assms by (auto simp: ConsHashedMeta_call_def split: option.splits)

lemma cons_call_keeps:
  assumes "ConsHashedMeta_call init_args init cls args kwargs st1 = Inr (j, st2)"
    and "cache st1 k = Some i"
  shows "cache st2 k = Some i"
  using assms by (auto simp: ConsHashedMeta_call_def split: sum.splits option.splits)

lemma collect_keeps: "i \<in> live \<Longrightarrow> cache st k = Some i \<Longrightarrow> cache (collect live st) k = Some i"
  by (simp add: collect_def)

lemma evolves_keeps:
  "evolves init_args init i st st2 \<Longrightarrow> cache st k = Some i \<Longrightarrow> cache st2 k = Some i"
  by (induction rule: evolves.induct) (auto intro: cons_call_keeps collect_keeps)

lemma cons_call_again:
  assumes "ConsHashedMeta_call init_args init cls args kwargs st = Inr (i, st1)"
    and "evolves init_args init i st1 st2"
    and "kwargs_to_args init_args cls args' kwargs' = kwargs_to_args init_args cls args kwargs"
  shows "ConsHashedMeta_call init_args init cls args' kwargs' st2 = Inr (i, st2)"
proof -
  from assms(1) obtain a where a: "kwargs_to_args init_args cls args kwargs = Inr a"
    by (auto simp: ConsHashedMeta_call_def split: sum.splits)
  have "cache st1 (cls, a) = Some i"
    by (rule cons_call_cached[OF assms(1) a])
  then have "cache st2 (cls, a) = Some i"
    by (rule evolves_keeps[OF assms(2)])
  then show ?thesis
    using a assms(3) by (simp add: ConsHashedMeta_call_def)
qed

text \<open>\<open>Number(data)\<close> and \<open>Number(data, type(data))\<close> are the same instance.\<close>

lemma Number_interned:
  assumes "AddTypeMeta_call init_args init data None st = Inr (i, st1)"
    and "evolves init_args init i st1 st2"
  shows "AddTypeMeta_call init_args init data (Some (type_of data)) st2 = Inr (i, st2)"
  using assms unfolding AddTypeMeta_call_def
  by (simp add: cons_call_again[where args'="[ANum data, AType (type_of data)]" and kwargs'="[]"])

text \<open>
  C4.  Let a construction call of class \<open>cls\<close> return instance \<open>i\<close>.  After any further
  construction calls, and any collections of the weak cache that keep \<open>i\<close>, a
  construction call of \<open>cls\<close> whose arguments (positional and keyword) make the same
  argument tuple returns the same instance \<open>i\<close> and leaves the cache as it is.
\<close>

theorem interning_same_instance:
  assumes "ConsHashedMeta_call init_args init cls args kwargs st = Inr (i, st1)"
    and "evolves init_args init i st1 st2"
    and "kwargs_to_args init_args cls args' kwargs' = kwargs_to_args init_args cls args kwargs"
  shows "ConsHashedMeta_call init_args init cls args' kwargs' st2 = Inr (i, st2)"
  using assms by (rule cons_call_again)

theorem interning_same_instance_witness:
  "\<exists>st1 st2.
     ConsHashedMeta_call (\<lambda>cls. [''name'', ''size'']) (\<lambda>cls args. None) ''Variable''
       [AStr ''x'', ANum (PyInt 3)] [] \<lparr>cache = Map.empty, next_id = 0\<rparr> = Inr (0, st1)
   \<and> evolves (\<lambda>cls. [''name'', ''size'']) (\<lambda>cls args. None) 0 st1 st2
   \<and> kwargs_to_args (\<lambda>cls. [''name'', ''size'']) ''Variable'' [AStr ''x''] [(''size'', ANum (PyInt 3))]
       = kwargs_to_args (\<lambda>cls. [''name'', ''size'']) ''Variable'' [AStr ''x'', ANum (PyInt 3)] []
   \<and> ConsHashedMeta_call (\<lambda>cls. [''name'', ''size'']) (\<lambda>cls args. None) ''Variable''
       [AStr ''x''] [(''size'', ANum (PyInt 3))] st2 = Inr (0, st2)"
proof -
  let ?ia = "\<lambda>cls :: string. [''name'', ''size'']"
  let ?init = "\<lambda>(cls :: string) (args :: pyarg list). None :: error option"
  let ?st0 = "\<lparr>cache = Map.empty, next_id = 0\<rparr>"
  let ?st1 = "\<lparr>cache = [(''Variable'', [AStr ''x'', ANum (PyInt 3)]) \<mapsto> 0], next_id = Suc 0\<rparr>"
  let ?st2 = "collect {0} ?st1"
  have c1: "ConsHashedMeta_call ?ia ?init ''Variable'' [AStr ''x'', ANum (PyInt 3)] [] ?st0 = Inr (0, ?st1)"
    by (simp add: ConsHashedMeta_call_def kwargs_to_args_def)
  have ev: "evolves ?ia ?init 0 ?st1 ?st2"
    by (rule evolves_collect[OF evolves_refl]) simp
  have k: "kwargs_to_args ?ia ''Variable'' [AStr ''x''] [(''size'', ANum (PyInt 3))]
           = kwargs_to_args ?ia ''Variable'' [AStr ''x'', ANum (PyInt 3)] []"
    by (simp add: kwargs_to_args_def)
  from interning_same_instance[OF c1 ev k] c1 ev k show ?thesis by blast
qed

subsection \<open>The deferred-call driver\<close>

text \<open>
  When the \<open>with\<close> body itself raises, \<open>__exit__\<close> empties the work list and both
  queues and the exception propagates.
\<close>

lemma exit_on_body_exception_discards:
  "exit_trampoline (Some e) st
   = Inl (e, st\<lparr>schedule := [], args_queue := [], kwargs_queue := [], returnvalue := None\<rparr>)"
  by (simp add: exit_trampoline_def)

text \<open>
  C8.  When a scheduled step raises while \<open>__exit__\<close> runs the work list, the exception
  leaves \<open>__exit__\<close> at once: the branch that empties the lists is not reached.  Here the
  run schedules two steps and the first one raises: the failure propagates and no value
  is returned, but the second step stays on the work list and its arguments stay in
  both queues.
\<close>

theorem trampoline_step_failure_keeps_pending:
  "(case call_trampoline
           [((\<lambda>args kwargs. Inl ValueError), [], []),
            ((\<lambda>args kwargs. Inr (PyInt 0)), [PyInt 7], [(''k'', PyInt 8)])]
           None of
      Inl (e, st) \<Rightarrow>
        e = ValueError \<and> length (schedule st) = 1 \<and> args_queue st = [PyInt 7]
        \<and> kwargs_queue st = [(''k'', PyInt 8)] \<and> returnvalue st = None
    | Inr r \<Rightarrow> False)"
  by (simp add: call_trampoline_def exit_trampoline_def process_TailCall_def enter_def)

end
